theory Spec2Isabelle
  imports Complex_Main
begin

section \<open>Numbers\<close>

text \<open>
  The demos compute on JavaScript numbers. The properties verified here are properties of
  the arithmetic the code writes down, so a number is an exact rational (\<^typ>\<open>rat\<close>):
  rounding is left out, and so are the non-finite values a division by zero produces in
  JavaScript. A theorem about a value that the code computes with a division states that
  the divisor is not zero. \<open>Math.floor\<close> and \<open>Math.ceil\<close> are \<^term>\<open>floor\<close> and
  \<^term>\<open>ceiling\<close>; the loop counters they start are integers.
\<close>

section \<open>The line grid (\<open>grid2d.js\<close>, first \<open>initGrid2d\<close>)\<close>

subsection \<open>Configuration and mutable state\<close>

text \<open>
  \<open>baseCellSize\<close> and \<open>sectionInterval\<close> are constants of the closure (50 and 5). The
  functions below take them as a record, and \<open>gridConfig\<close> is the record the source fixes.
\<close>

record grid_config =
  baseCellSize :: rat
  sectionInterval :: int

definition gridConfig :: grid_config where
  "gridConfig = \<lparr>baseCellSize = 50, sectionInterval = 5\<rparr>"

text \<open>
  The variables the handlers of the closure mutate: the canvas size, \<open>currentZoom\<close>,
  \<open>panOffset\<close> and the two vertex arrays, which hold two numbers per vertex.
\<close>

record line_grid =
  canvas_width :: rat
  canvas_height :: rat
  currentZoom :: rat
  panOffset_x :: rat
  panOffset_y :: rat
  majorLineVertices :: "rat list"
  minorLineVertices :: "rat list"

text \<open>
  The state the closure starts in, on a canvas of the given size: zoom 1, no pan, empty
  arrays.
\<close>

definition initialGrid :: "rat \<Rightarrow> rat \<Rightarrow> line_grid" where
  "initialGrid w h =
     \<lparr>canvas_width = w, canvas_height = h, currentZoom = 1, panOffset_x = 0, panOffset_y = 0,
      majorLineVertices = [], minorLineVertices = []\<rparr>"

subsection \<open>Coordinate mapping\<close>

text \<open>
  \<open>frame\<close> uploads \<open>scale_factor_xy = baseCellSize * currentZoom\<close> (both components) and
  \<open>grid_origin_pixels_xy = (canvas.width / 2 + panOffset.x, canvas.height / 2 + panOffset.y)\<close>.
\<close>

definition scale_factor :: "grid_config \<Rightarrow> line_grid \<Rightarrow> rat" where
  "scale_factor cfg s = baseCellSize cfg * currentZoom s"

definition grid_origin_pixels :: "line_grid \<Rightarrow> rat \<times> rat" where
  "grid_origin_pixels s =
     (canvas_width s / 2 + panOffset_x s, canvas_height s / 2 + panOffset_y s)"

text \<open>
  The first line of the vertex shader \<open>vs_main\<close>:
  \<open>pixel_pos = logical_pos * uniforms.scale_factor_xy + uniforms.grid_origin_pixels_xy\<close>,
  componentwise.
\<close>

definition logicalToPixel :: "grid_config \<Rightarrow> line_grid \<Rightarrow> rat \<times> rat \<Rightarrow> rat \<times> rat" where
  "logicalToPixel cfg s logical_pos =
     (fst logical_pos * scale_factor cfg s + fst (grid_origin_pixels s),
      snd logical_pos * scale_factor cfg s + snd (grid_origin_pixels s))"

text \<open>
  The inverse the wheel handler computes for the point under the cursor:
  \<open>(mouseX - (canvas.width / 2 + panOffset.x)) / (baseCellSize * oldZoom)\<close>, and the same
  for \<open>y\<close>.
\<close>

definition pixelToLogical :: "grid_config \<Rightarrow> line_grid \<Rightarrow> rat \<times> rat \<Rightarrow> rat \<times> rat" where
  "pixelToLogical cfg s pixel_pos =
     ((fst pixel_pos - (canvas_width s / 2 + panOffset_x s)) / (baseCellSize cfg * currentZoom s),
      (snd pixel_pos - (canvas_height s / 2 + panOffset_y s)) / (baseCellSize cfg * currentZoom s))"

subsection \<open>Classifying a line\<close>

text \<open>
  \<open>%\<close> of JavaScript is the remainder of the division that truncates towards zero: the
  result has the sign of the dividend, and is \<open>NaN\<close> (here \<open>None\<close>) for a zero divisor.
  On a negative multiple the result is \<open>-0\<close>, which \<open>=== 0\<close> accepts; as an integer it
  is \<open>0\<close>.
\<close>

definition js_rem :: "int \<Rightarrow> int \<Rightarrow> int option" where
  "js_rem a b = (if b = 0 then None else Some (sgn a * (\<bar>a\<bar> mod \<bar>b\<bar>)))"

text \<open>The test \<open>lx % sectionInterval === 0\<close> of both loops.\<close>

definition isMajor :: "grid_config \<Rightarrow> int \<Rightarrow> bool" where
  "isMajor cfg lx = (js_rem lx (sectionInterval cfg) = Some 0)"

subsection \<open>Generating the lines\<close>

text \<open>
  The visible logical range, with its margin of 5 cells (\<open>generateGridVertices\<close>, the four
  \<open>const view...\<close> lines).
\<close>

definition effectiveCellSize :: "grid_config \<Rightarrow> line_grid \<Rightarrow> rat" where
  "effectiveCellSize cfg s = baseCellSize cfg * currentZoom s"

definition initialGridOriginX :: "line_grid \<Rightarrow> rat" where
  "initialGridOriginX s = canvas_width s / 2"

definition initialGridOriginY :: "line_grid \<Rightarrow> rat" where
  "initialGridOriginY s = canvas_height s / 2"

definition viewMinLogicalX :: "grid_config \<Rightarrow> line_grid \<Rightarrow> rat" where
  "viewMinLogicalX cfg s =
     (- (initialGridOriginX s + panOffset_x s)) / effectiveCellSize cfg s - 5"

definition viewMaxLogicalX :: "grid_config \<Rightarrow> line_grid \<Rightarrow> rat" where
  "viewMaxLogicalX cfg s =
     (canvas_width s - (initialGridOriginX s + panOffset_x s)) / effectiveCellSize cfg s + 5"

definition viewMinLogicalY :: "grid_config \<Rightarrow> line_grid \<Rightarrow> rat" where
  "viewMinLogicalY cfg s =
     (- (initialGridOriginY s + panOffset_y s)) / effectiveCellSize cfg s - 5"

definition viewMaxLogicalY :: "grid_config \<Rightarrow> line_grid \<Rightarrow> rat" where
  "viewMaxLogicalY cfg s =
     (canvas_height s - (initialGridOriginY s + panOffset_y s)) / effectiveCellSize cfg s + 5"

text \<open>
  The four numbers (two vertices) pushed for one line. A vertical line at \<open>lx\<close> runs from
  \<open>viewMinLogicalY - 5\<close> to \<open>viewMaxLogicalY + 5\<close>; a horizontal line at \<open>ly\<close> from
  \<open>viewMinLogicalX - 5\<close> to \<open>viewMaxLogicalX + 5\<close>.
\<close>

definition verticalEndpoints :: "rat \<Rightarrow> rat \<Rightarrow> int \<Rightarrow> rat list" where
  "verticalEndpoints ymin ymax lx = [of_int lx, ymin - 5, of_int lx, ymax + 5]"

definition horizontalEndpoints :: "rat \<Rightarrow> rat \<Rightarrow> int \<Rightarrow> rat list" where
  "horizontalEndpoints xmin xmax ly = [xmin - 5, of_int ly, xmax + 5, of_int ly]"

text \<open>
  The two \<open>for\<close> loops: the counter runs from \<open>lx\<close> up to \<open>hi\<close> inclusive, and each
  round appends the endpoints to the major or to the minor array. The result is the pair
  (major, minor).
\<close>

function verticalLines ::
  "grid_config \<Rightarrow> rat \<Rightarrow> rat \<Rightarrow> int \<Rightarrow> int \<Rightarrow> rat list \<Rightarrow> rat list \<Rightarrow> rat list \<times> rat list"
where
  "verticalLines cfg ymin ymax lx hi major minor =
     (if lx \<le> hi then
        (if isMajor cfg lx
         then verticalLines cfg ymin ymax (lx + 1) hi
                (major @ verticalEndpoints ymin ymax lx) minor
         else verticalLines cfg ymin ymax (lx + 1) hi
                major (minor @ verticalEndpoints ymin ymax lx))
      else (major, minor))"
  by pat_completeness auto
termination
  by (relation "measure (\<lambda>(cfg, ymin, ymax, lx, hi, major, minor). nat (hi + 1 - lx))") auto

function horizontalLines ::
  "grid_config \<Rightarrow> rat \<Rightarrow> rat \<Rightarrow> int \<Rightarrow> int \<Rightarrow> rat list \<Rightarrow> rat list \<Rightarrow> rat list \<times> rat list"
where
  "horizontalLines cfg xmin xmax ly hi major minor =
     (if ly \<le> hi then
        (if isMajor cfg ly
         then horizontalLines cfg xmin xmax (ly + 1) hi
                (major @ horizontalEndpoints xmin xmax ly) minor
         else horizontalLines cfg xmin xmax (ly + 1) hi
                major (minor @ horizontalEndpoints xmin xmax ly))
      else (major, minor))"
  by pat_completeness auto
termination
  by (relation "measure (\<lambda>(cfg, xmin, xmax, ly, hi, major, minor). nat (hi + 1 - ly))") auto

declare verticalLines.simps [simp del]
declare horizontalLines.simps [simp del]

text \<open>
  \<open>generateGridVertices\<close>: both arrays are emptied; below an effective cell size of 2
  pixels the function returns at once; otherwise the vertical lines are pushed, then the
  horizontal ones.
\<close>

definition generateGridVertices :: "grid_config \<Rightarrow> line_grid \<Rightarrow> line_grid" where
  "generateGridVertices cfg s =
     (let s0 = s\<lparr>majorLineVertices := [], minorLineVertices := []\<rparr> in
      if effectiveCellSize cfg s0 < 2 then s0
      else
        (let (major1, minor1) =
               verticalLines cfg (viewMinLogicalY cfg s0) (viewMaxLogicalY cfg s0)
                 \<lfloor>viewMinLogicalX cfg s0\<rfloor> \<lceil>viewMaxLogicalX cfg s0\<rceil> [] [];
             (major2, minor2) =
               horizontalLines cfg (viewMinLogicalX cfg s0) (viewMaxLogicalX cfg s0)
                 \<lfloor>viewMinLogicalY cfg s0\<rfloor> \<lceil>viewMaxLogicalY cfg s0\<rceil> major1 minor1
         in s0\<lparr>majorLineVertices := major2, minorLineVertices := minor2\<rparr>))"

text \<open>
  \<open>updateVertexBuffers\<close> regenerates the arrays and copies them into two fresh GPU
  buffers; the buffers hold what the arrays hold and are not modelled apart from them.
\<close>

definition updateVertexBuffers :: "grid_config \<Rightarrow> line_grid \<Rightarrow> line_grid" where
  "updateVertexBuffers cfg s = generateGridVertices cfg s"

subsection \<open>Reading the vertex arrays\<close>

text \<open>
  The pipeline reads a vertex buffer as \<open>float32x2\<close> vertices with the topology
  \<open>line-list\<close>: two numbers are a vertex, two vertices are a line, and an incomplete line
  at the end is not drawn.
\<close>

type_synonym line_segment = "(rat \<times> rat) \<times> (rat \<times> rat)"

fun line_list :: "rat list \<Rightarrow> line_segment list" where
  "line_list (x0 # y0 # x1 # y1 # rest) = ((x0, y0), (x1, y1)) # line_list rest"
| "line_list rest = []"

text \<open>
  The line the first loop pushes for the index \<open>lx\<close>, and the second for \<open>ly\<close>, as the
  pipeline reads them.
\<close>

definition verticalLine :: "grid_config \<Rightarrow> line_grid \<Rightarrow> int \<Rightarrow> line_segment" where
  "verticalLine cfg s lx =
     ((of_int lx, viewMinLogicalY cfg s - 5), (of_int lx, viewMaxLogicalY cfg s + 5))"

definition horizontalLine :: "grid_config \<Rightarrow> line_grid \<Rightarrow> int \<Rightarrow> line_segment" where
  "horizontalLine cfg s ly =
     ((viewMinLogicalX cfg s - 5, of_int ly), (viewMaxLogicalX cfg s + 5, of_int ly))"

text \<open>All the lines of a state, and the indices of its vertical and horizontal lines.\<close>

definition emitted :: "line_grid \<Rightarrow> line_segment list" where
  "emitted s = line_list (majorLineVertices s) @ line_list (minorLineVertices s)"

definition is_vertical :: "line_segment \<Rightarrow> bool" where
  "is_vertical l = (fst (fst l) = fst (snd l))"

definition is_horizontal :: "line_segment \<Rightarrow> bool" where
  "is_horizontal l = (snd (fst l) = snd (snd l))"



text \<open>
  \<open>frame\<close> issues one draw call per non-empty array, the minor lines first; the vertex
  count is half the array length.
\<close>

datatype draw_call = Draw (vertexCount: nat)

definition frame_draws :: "line_grid \<Rightarrow> draw_call list" where
  "frame_draws s =
     (if length (minorLineVertices s) > 0 then [Draw (length (minorLineVertices s) div 2)] else []) @
     (if length (majorLineVertices s) > 0 then [Draw (length (majorLineVertices s) div 2)] else [])"

subsection \<open>The wheel handler\<close>

text \<open>
  What a handler reads from a mouse event: the client position and the canvas rectangle
  (\<open>getBoundingClientRect\<close>) at that moment. A wheel event carries \<open>deltaY\<close> as well.
\<close>

record mouse_event =
  clientX :: rat
  clientY :: rat
  rect_left :: rat
  rect_top :: rat

record wheel_event = mouse_event +
  deltaY :: rat

text \<open>\<open>mouseX = event.clientX - rect.left\<close> and \<open>mouseY = event.clientY - rect.top\<close>.\<close>

definition mouseX :: "'a mouse_event_scheme \<Rightarrow> rat" where
  "mouseX event = clientX event - rect_left event"

definition mouseY :: "'a mouse_event_scheme \<Rightarrow> rat" where
  "mouseY event = clientY event - rect_top event"

text \<open>
  The handler: one notch multiplies the zoom by \<open>1 + 0.1\<close> (\<open>deltaY < 0\<close>) or \<open>1 - 0.1\<close>, the
  result is clamped to \<open>[0.05, 20]\<close>, and the pan offset is recomputed from the logical
  point under the cursor; then the vertices are regenerated.
\<close>

definition zoomFactor :: "'a wheel_event_scheme \<Rightarrow> rat" where
  "zoomFactor event = 1 + (if deltaY event < 0 then 1 else - 1) * (1 / 10)"

definition clampZoom :: "rat \<Rightarrow> rat" where
  "clampZoom z = max (1 / 20) (min z 20)"

definition wheel :: "grid_config \<Rightarrow> line_grid \<Rightarrow> 'a wheel_event_scheme \<Rightarrow> line_grid" where
  "wheel cfg s event =
     (let oldZoom = currentZoom s;
          newZoom = clampZoom (oldZoom * zoomFactor event);
          logicalMouseX =
            (mouseX event - (canvas_width s / 2 + panOffset_x s)) / (baseCellSize cfg * oldZoom);
          logicalMouseY =
            (mouseY event - (canvas_height s / 2 + panOffset_y s)) / (baseCellSize cfg * oldZoom)
      in updateVertexBuffers cfg
           (s\<lparr>currentZoom := newZoom,
              panOffset_x :=
                mouseX event - canvas_width s / 2 - logicalMouseX * (baseCellSize cfg * newZoom),
              panOffset_y :=
                mouseY event - canvas_height s / 2 - logicalMouseY * (baseCellSize cfg * newZoom)\<rparr>))"

text \<open>A sequence of wheel events, handled one after the other.\<close>

fun wheels :: "grid_config \<Rightarrow> line_grid \<Rightarrow> 'a wheel_event_scheme list \<Rightarrow> line_grid" where
  "wheels cfg s [] = s"
| "wheels cfg s (event # events) = wheels cfg (wheel cfg s event) events"

section \<open>The cell grid (\<open>grid2d.js\<close>, second \<open>initGrid2d\<close>)\<close>

text \<open>
  The grid has \<open>gridSize = 10\<close> cells a side. The closure mutates \<open>scale\<close> and the set
  \<open>selectedCells\<close>; \<open>cameraPos\<close> is read by the click handler. The canvas size is what
  the page gives the canvas.
\<close>

definition gridSize :: int where
  "gridSize = 10"

record cell_grid =
  cell_canvas_width :: rat
  cell_canvas_height :: rat
  scale :: rat
  cameraPos_x :: rat
  cameraPos_y :: rat
  selectedCells :: "int set"

definition initialCells :: "rat \<Rightarrow> rat \<Rightarrow> cell_grid" where
  "initialCells w h =
     \<lparr>cell_canvas_width = w, cell_canvas_height = h, scale = 1, cameraPos_x = 0,
      cameraPos_y = 0, selectedCells = {}\<rparr>"

text \<open>
  The wheel handler: \<open>scale += e.deltaY * -0.001 * zoomSpeed\<close> with \<open>zoomSpeed = 0.1\<close>, then
  the clamp to \<open>[0.1, 5]\<close>.
\<close>

definition cell_wheel :: "cell_grid \<Rightarrow> 'a wheel_event_scheme \<Rightarrow> cell_grid" where
  "cell_wheel s e =
     (let zoomSpeed = 1 / 10;
          scale1 = scale s + deltaY e * (- (1 / 1000)) * zoomSpeed
      in s\<lparr>scale := max (1 / 10) (min scale1 5)\<rparr>)"

fun cell_wheels :: "cell_grid \<Rightarrow> 'a wheel_event_scheme list \<Rightarrow> cell_grid" where
  "cell_wheels s [] = s"
| "cell_wheels s (e # es) = cell_wheels (cell_wheel s e) es"

text \<open>
  The click handler: the cell size in pixels, the column \<open>gridX\<close> and the row \<open>gridY\<close> under
  the mouse, the flattened index, and the toggle of that index in \<open>selectedCells\<close>. The
  index is not compared with the size of the grid.
\<close>

definition cellSize :: "cell_grid \<Rightarrow> rat" where
  "cellSize s = (min (cell_canvas_width s) (cell_canvas_height s) / of_int gridSize) * scale s"

definition gridX :: "cell_grid \<Rightarrow> 'a mouse_event_scheme \<Rightarrow> int" where
  "gridX s e = \<lfloor>(mouseX e - cameraPos_x s) / cellSize s\<rfloor>"

definition gridY :: "cell_grid \<Rightarrow> 'a mouse_event_scheme \<Rightarrow> int" where
  "gridY s e = \<lfloor>(mouseY e - cameraPos_y s) / cellSize s\<rfloor>"

definition cellIndex :: "cell_grid \<Rightarrow> 'a mouse_event_scheme \<Rightarrow> int" where
  "cellIndex s e = gridY s e * gridSize + gridX s e"

definition click :: "cell_grid \<Rightarrow> 'a mouse_event_scheme \<Rightarrow> cell_grid" where
  "click s e =
     (if cellIndex s e \<in> selectedCells s
      then s\<lparr>selectedCells := selectedCells s - {cellIndex s e}\<rparr>
      else s\<lparr>selectedCells := insert (cellIndex s e) (selectedCells s)\<rparr>)"

section \<open>Acquiring the device\<close>

text \<open>
  What the browser answers at startup: whether \<open>navigator.gpu\<close> is defined, whether
  \<open>requestAdapter\<close> resolves to an adapter (it resolves to \<open>null\<close> otherwise), and whether
  \<open>requestDevice\<close> resolves to a device (its promise is rejected otherwise).
\<close>

record gpu_env =
  navigator_gpu :: bool
  adapter_found :: bool
  device_granted :: bool

text \<open>
  What a startup does that can be observed: the calls that acquire the device, the
  messages, and the steps of the setup and of the first rendering.
\<close>

datatype startup_error = WebGPUNotSupported | AdapterNotLoaded | RequestDeviceRejected

datatype effect =
    RequestAdapter | RequestDevice
  | Alert string | ConsoleLog | ConsoleError startup_error
  | Configure | CreateShaderModule | CreateRenderPipeline | CreateComputePipeline
  | ObserveResize | Render | RenderCompute

datatype completion = Fulfilled | Rejected startup_error

fun is_alert :: "effect \<Rightarrow> bool" where
  "is_alert (Alert msg) = True"
| "is_alert eff = False"

fun is_console_error :: "effect \<Rightarrow> bool" where
  "is_console_error (ConsoleError err) = True"
| "is_console_error eff = False"

fun is_setup :: "effect \<Rightarrow> bool" where
  "is_setup Configure = True"
| "is_setup CreateShaderModule = True"
| "is_setup CreateRenderPipeline = True"
| "is_setup CreateComputePipeline = True"
| "is_setup ObserveResize = True"
| "is_setup Render = True"
| "is_setup RenderCompute = True"
| "is_setup eff = False"

text \<open>\<open>fail\<close> of \<open>minor.js\<close>: one \<open>alert\<close> with the message.\<close>

definition fail :: "string \<Rightarrow> effect list" where
  "fail msg = [Alert msg]"

text \<open>
  \<open>main\<close> of \<open>minor.js\<close>. With optional chaining, \<open>device\<close> is \<open>undefined\<close> when
  \<open>navigator.gpu\<close> is missing (then \<open>requestAdapter\<close> is not called) or when the adapter
  is \<open>null\<close> (then \<open>requestDevice\<close> is not called): \<open>fail\<close> is called and \<open>main\<close> returns.
  A rejected \<open>requestDevice\<close> is thrown by \<open>await\<close> and rejects the promise of \<open>main\<close>.
  Otherwise the context is configured, three shader modules and the pipeline are created,
  and the resize observer is started.
\<close>

definition main :: "gpu_env \<Rightarrow> effect list \<times> completion" where
  "main env =
     (if navigator_gpu env then
        (if adapter_found env then
           (if device_granted env then
              ([RequestAdapter, RequestDevice, Configure, CreateShaderModule, CreateShaderModule,
                CreateShaderModule, CreateRenderPipeline, ObserveResize], Fulfilled)
            else ([RequestAdapter, RequestDevice], Rejected RequestDeviceRejected))
         else (RequestAdapter # fail ''need a browser that supports WebGPU'', Fulfilled))
      else (fail ''need a browser that supports WebGPU'', Fulfilled))"

text \<open>
  \<open>getDevice\<close> of \<open>main.js\<close> throws when \<open>navigator.gpu\<close> is missing and when the adapter
  is \<open>null\<close>, and returns the promise of \<open>requestDevice\<close>.
\<close>

definition getDevice :: "gpu_env \<Rightarrow> effect list \<times> (startup_error + unit)" where
  "getDevice env =
     (if \<not> navigator_gpu env then ([], Inl WebGPUNotSupported)
      else if \<not> adapter_found env then ([RequestAdapter], Inl AdapterNotLoaded)
      else if device_granted env then ([RequestAdapter, RequestDevice], Inr ())
      else ([RequestAdapter, RequestDevice], Inl RequestDeviceRejected))"

text \<open>
  The body of the module \<open>main.js\<close>: \<open>navigator.gpu\<close> is logged, then
  \<open>getDevice().then(...).catch(...)\<close>. The \<open>then\<close> branch logs the device, configures the
  context, creates two shader modules and two pipelines, and renders; the \<open>catch\<close> branch is
  \<open>console.error(error)\<close>.
\<close>

definition main_js :: "gpu_env \<Rightarrow> effect list" where
  "main_js env =
     ConsoleLog #
     (case getDevice env of
        (calls, Inl error) \<Rightarrow> calls @ [ConsoleError error]
      | (calls, Inr loadedDevice) \<Rightarrow>
          calls @ [ConsoleLog, Configure, CreateShaderModule, CreateShaderModule,
                   CreateRenderPipeline, CreateComputePipeline, Render, RenderCompute])"

section \<open>Facts about the model\<close>

subsection \<open>Starting states\<close>

lemma initialGrid_fields [simp]:
  "canvas_width (initialGrid w h) = w"
  "canvas_height (initialGrid w h) = h"
  "currentZoom (initialGrid w h) = 1"
  "panOffset_x (initialGrid w h) = 0"
  "panOffset_y (initialGrid w h) = 0"
  "majorLineVertices (initialGrid w h) = []"
  "minorLineVertices (initialGrid w h) = []"
  by (simp_all add: initialGrid_def)

lemma initialCells_fields [simp]:
  "cell_canvas_width (initialCells w h) = w"
  "cell_canvas_height (initialCells w h) = h"
  "scale (initialCells w h) = 1"
  "cameraPos_x (initialCells w h) = 0"
  "cameraPos_y (initialCells w h) = 0"
  "selectedCells (initialCells w h) = {}"
  by (simp_all add: initialCells_def)

lemma example_view:
  "effectiveCellSize gridConfig (initialGrid 100 100) = 50"
  "viewMinLogicalX gridConfig (initialGrid 100 100) = - 6"
  "viewMaxLogicalX gridConfig (initialGrid 100 100) = 6"
  "viewMinLogicalY gridConfig (initialGrid 100 100) = - 6"
  "viewMaxLogicalY gridConfig (initialGrid 100 100) = 6"
  by (simp_all add: effectiveCellSize_def viewMinLogicalX_def viewMaxLogicalX_def
      viewMinLogicalY_def viewMaxLogicalY_def initialGridOriginX_def initialGridOriginY_def
      gridConfig_def initialGrid_def)

subsection \<open>The two loops as list comprehensions\<close>

text \<open>
  Each loop appends, in increasing order of the index, the endpoints of the major indices
  of its range to the major array and those of the other indices to the minor array.
\<close>

lemma verticalLines_eq:
  "verticalLines cfg ymin ymax lx hi major minor =
     (major @ concat (map (verticalEndpoints ymin ymax) (filter (isMajor cfg) [lx..hi])),
      minor @ concat (map (verticalEndpoints ymin ymax) (filter (\<lambda>i. \<not> isMajor cfg i) [lx..hi])))"
proof (induction cfg ymin ymax lx hi major minor rule: verticalLines.induct)
  case (1 cfg ymin ymax lx hi major minor)
  show ?case
  proof (cases "lx \<le> hi")
    case False
    then show ?thesis by (simp add: verticalLines.simps)
  next
    case True
    then have range: "[lx..hi] = lx # [lx + 1..hi]" by (simp add: upto_rec1)
    show ?thesis
    proof (cases "isMajor cfg lx")
      case True
      with \<open>lx \<le> hi\<close> "1.IH"(1) range show ?thesis
        by (subst verticalLines.simps) simp
    next
      case False
      with \<open>lx \<le> hi\<close> "1.IH"(2) range show ?thesis
        by (subst verticalLines.simps) simp
    qed
  qed
qed

lemma horizontalLines_eq:
  "horizontalLines cfg xmin xmax ly hi major minor =
     (major @ concat (map (horizontalEndpoints xmin xmax) (filter (isMajor cfg) [ly..hi])),
      minor @ concat (map (horizontalEndpoints xmin xmax) (filter (\<lambda>i. \<not> isMajor cfg i) [ly..hi])))"
proof (induction cfg xmin xmax ly hi major minor rule: horizontalLines.induct)
  case (1 cfg xmin xmax ly hi major minor)
  show ?case
  proof (cases "ly \<le> hi")
    case False
    then show ?thesis by (simp add: horizontalLines.simps)
  next
    case True
    then have range: "[ly..hi] = ly # [ly + 1..hi]" by (simp add: upto_rec1)
    show ?thesis
    proof (cases "isMajor cfg ly")
      case True
      with \<open>ly \<le> hi\<close> "1.IH"(1) range show ?thesis
        by (subst horizontalLines.simps) simp
    next
      case False
      with \<open>ly \<le> hi\<close> "1.IH"(2) range show ?thesis
        by (subst horizontalLines.simps) simp
    qed
  qed
qed

lemma line_list_vertical:
  "line_list (concat (map (verticalEndpoints ymin ymax) is) @ rest) =
     map (\<lambda>i. ((of_int i, ymin - 5), (of_int i, ymax + 5))) is @ line_list rest"
  by (induction "is") (simp_all add: verticalEndpoints_def)

lemma line_list_horizontal:
  "line_list (concat (map (horizontalEndpoints xmin xmax) is) @ rest) =
     map (\<lambda>i. ((xmin - 5, of_int i), (xmax + 5, of_int i))) is @ line_list rest"
  by (induction "is") (simp_all add: horizontalEndpoints_def)

lemma line_list_vertical':
  "line_list (concat (map (verticalEndpoints ymin ymax) is)) =
     map (\<lambda>i. ((of_int i, ymin - 5), (of_int i, ymax + 5))) is"
  using line_list_vertical [of ymin ymax "is" "[]"] by simp

lemma line_list_horizontal':
  "line_list (concat (map (horizontalEndpoints xmin xmax) is)) =
     map (\<lambda>i. ((xmin - 5, of_int i), (xmax + 5, of_int i))) is"
  using line_list_horizontal [of xmin xmax "is" "[]"] by simp

lemma view_reset [simp]:
  "viewMinLogicalX cfg (s\<lparr>majorLineVertices := a, minorLineVertices := b\<rparr>) = viewMinLogicalX cfg s"
  "viewMaxLogicalX cfg (s\<lparr>majorLineVertices := a, minorLineVertices := b\<rparr>) = viewMaxLogicalX cfg s"
  "viewMinLogicalY cfg (s\<lparr>majorLineVertices := a, minorLineVertices := b\<rparr>) = viewMinLogicalY cfg s"
  "viewMaxLogicalY cfg (s\<lparr>majorLineVertices := a, minorLineVertices := b\<rparr>) = viewMaxLogicalY cfg s"
  "effectiveCellSize cfg (s\<lparr>majorLineVertices := a, minorLineVertices := b\<rparr>) = effectiveCellSize cfg s"
  by (simp_all add: viewMinLogicalX_def viewMaxLogicalX_def viewMinLogicalY_def
      viewMaxLogicalY_def effectiveCellSize_def initialGridOriginX_def initialGridOriginY_def)

lemma generateGridVertices_small:
  assumes "effectiveCellSize cfg s < 2"
  shows "generateGridVertices cfg s = s\<lparr>majorLineVertices := [], minorLineVertices := []\<rparr>"
  using assms
  by (simp add: generateGridVertices_def effectiveCellSize_def)

lemma generateGridVertices_large:
  assumes "2 \<le> effectiveCellSize cfg s"
  shows "generateGridVertices cfg s =
     s\<lparr>majorLineVertices :=
         concat (map (verticalEndpoints (viewMinLogicalY cfg s) (viewMaxLogicalY cfg s))
           (filter (isMajor cfg) [\<lfloor>viewMinLogicalX cfg s\<rfloor>..\<lceil>viewMaxLogicalX cfg s\<rceil>])) @
         concat (map (horizontalEndpoints (viewMinLogicalX cfg s) (viewMaxLogicalX cfg s))
           (filter (isMajor cfg) [\<lfloor>viewMinLogicalY cfg s\<rfloor>..\<lceil>viewMaxLogicalY cfg s\<rceil>])),
       minorLineVertices :=
         concat (map (verticalEndpoints (viewMinLogicalY cfg s) (viewMaxLogicalY cfg s))
           (filter (\<lambda>i. \<not> isMajor cfg i) [\<lfloor>viewMinLogicalX cfg s\<rfloor>..\<lceil>viewMaxLogicalX cfg s\<rceil>])) @
         concat (map (horizontalEndpoints (viewMinLogicalX cfg s) (viewMaxLogicalX cfg s))
           (filter (\<lambda>i. \<not> isMajor cfg i) [\<lfloor>viewMinLogicalY cfg s\<rfloor>..\<lceil>viewMaxLogicalY cfg s\<rceil>]))\<rparr>"
  using assms
  by (simp add: generateGridVertices_def verticalLines_eq horizontalLines_eq)

lemma generateGridVertices_camera [simp]:
  "canvas_width (generateGridVertices cfg s) = canvas_width s"
  "canvas_height (generateGridVertices cfg s) = canvas_height s"
  "currentZoom (generateGridVertices cfg s) = currentZoom s"
  "panOffset_x (generateGridVertices cfg s) = panOffset_x s"
  "panOffset_y (generateGridVertices cfg s) = panOffset_y s"
  by (simp_all add: generateGridVertices_def Let_def split: prod.splits)

lemma major_lines:
  assumes "2 \<le> effectiveCellSize cfg s"
  shows "line_list (majorLineVertices (generateGridVertices cfg s)) =
     map (verticalLine cfg s)
       (filter (isMajor cfg) [\<lfloor>viewMinLogicalX cfg s\<rfloor>..\<lceil>viewMaxLogicalX cfg s\<rceil>]) @
     map (horizontalLine cfg s)
       (filter (isMajor cfg) [\<lfloor>viewMinLogicalY cfg s\<rfloor>..\<lceil>viewMaxLogicalY cfg s\<rceil>])"
  by (simp add: generateGridVertices_large [OF assms] line_list_vertical line_list_horizontal'
      verticalLine_def horizontalLine_def)

lemma minor_lines:
  assumes "2 \<le> effectiveCellSize cfg s"
  shows "line_list (minorLineVertices (generateGridVertices cfg s)) =
     map (verticalLine cfg s)
       (filter (\<lambda>i. \<not> isMajor cfg i) [\<lfloor>viewMinLogicalX cfg s\<rfloor>..\<lceil>viewMaxLogicalX cfg s\<rceil>]) @
     map (horizontalLine cfg s)
       (filter (\<lambda>i. \<not> isMajor cfg i) [\<lfloor>viewMinLogicalY cfg s\<rfloor>..\<lceil>viewMaxLogicalY cfg s\<rceil>])"
  by (simp add: generateGridVertices_large [OF assms] line_list_vertical line_list_horizontal'
      verticalLine_def horizontalLine_def)

lemma set_emitted:
  assumes "2 \<le> effectiveCellSize cfg s"
  shows "set (emitted (generateGridVertices cfg s)) =
     verticalLine cfg s ` {\<lfloor>viewMinLogicalX cfg s\<rfloor>..\<lceil>viewMaxLogicalX cfg s\<rceil>} \<union>
     horizontalLine cfg s ` {\<lfloor>viewMinLogicalY cfg s\<rfloor>..\<lceil>viewMaxLogicalY cfg s\<rceil>}"
  by (auto simp add: emitted_def major_lines [OF assms] minor_lines [OF assms])

text \<open>The arrays on a canvas of 100 by 100 pixels at zoom 1, computed from the definitions.\<close>

lemma generateGridVertices_example:
  "majorLineVertices (generateGridVertices gridConfig (initialGrid 100 100)) =
     [- 5, - 11, - 5, 11, 0, - 11, 0, 11, 5, - 11, 5, 11,
      - 11, - 5, 11, - 5, - 11, 0, 11, 0, - 11, 5, 11, 5]"
  "length (minorLineVertices (generateGridVertices gridConfig (initialGrid 100 100))) = 80"
  by code_simp+

subsection \<open>The visible range\<close>

lemma view_pixelToLogical:
  "viewMinLogicalX cfg s = fst (pixelToLogical cfg s (0, 0)) - 5"
  "viewMaxLogicalX cfg s = fst (pixelToLogical cfg s (canvas_width s, canvas_height s)) + 5"
  "viewMinLogicalY cfg s = snd (pixelToLogical cfg s (0, 0)) - 5"
  "viewMaxLogicalY cfg s = snd (pixelToLogical cfg s (canvas_width s, canvas_height s)) + 5"
  by (simp_all add: viewMinLogicalX_def viewMaxLogicalX_def viewMinLogicalY_def
      viewMaxLogicalY_def effectiveCellSize_def initialGridOriginX_def initialGridOriginY_def
      pixelToLogical_def)

lemma margin_low:
  fixes e l orig :: rat
  assumes "0 < e"
  shows "- 5 * e \<le> l * e + orig \<longleftrightarrow> (- orig) / e - 5 \<le> l"
proof -
  have "(- orig) / e - 5 \<le> l \<longleftrightarrow> (- orig) / e \<le> l + 5" by linarith
  also have "\<dots> \<longleftrightarrow> - orig \<le> (l + 5) * e" using assms by (rule pos_divide_le_eq)
  also have "\<dots> \<longleftrightarrow> - 5 * e \<le> l * e + orig"
  proof -
    have "(l + 5) * e = l * e + 5 * e" by (simp add: algebra_simps)
    then show ?thesis by linarith
  qed
  finally show ?thesis by simp
qed

lemma margin_high:
  fixes e l orig w :: rat
  assumes "0 < e"
  shows "l * e + orig \<le> w + 5 * e \<longleftrightarrow> l \<le> (w - orig) / e + 5"
proof -
  have "l \<le> (w - orig) / e + 5 \<longleftrightarrow> l - 5 \<le> (w - orig) / e" by linarith
  also have "\<dots> \<longleftrightarrow> (l - 5) * e \<le> w - orig" using assms by (rule pos_le_divide_eq)
  also have "\<dots> \<longleftrightarrow> l * e + orig \<le> w + 5 * e"
  proof -
    have "(l - 5) * e = l * e - 5 * e" by (simp add: algebra_simps)
    then show ?thesis by linarith
  qed
  finally show ?thesis by simp
qed

lemma pixel_x_in_view:
  assumes "0 < effectiveCellSize cfg s"
  shows "- 5 * effectiveCellSize cfg s \<le> fst (logicalToPixel cfg s (of_int lx, y)) \<longleftrightarrow>
         viewMinLogicalX cfg s \<le> of_int lx"
    and "fst (logicalToPixel cfg s (of_int lx, y)) \<le> canvas_width s + 5 * effectiveCellSize cfg s \<longleftrightarrow>
         of_int lx \<le> viewMaxLogicalX cfg s"
  using margin_low [OF assms, of "of_int lx" "canvas_width s / 2 + panOffset_x s"]
    margin_high [OF assms, of "of_int lx" "canvas_width s / 2 + panOffset_x s" "canvas_width s"]
  by (simp_all add: logicalToPixel_def scale_factor_def grid_origin_pixels_def
      viewMinLogicalX_def viewMaxLogicalX_def effectiveCellSize_def initialGridOriginX_def)

lemma pixel_y_in_view:
  assumes "0 < effectiveCellSize cfg s"
  shows "- 5 * effectiveCellSize cfg s \<le> snd (logicalToPixel cfg s (x, of_int ly)) \<longleftrightarrow>
         viewMinLogicalY cfg s \<le> of_int ly"
    and "snd (logicalToPixel cfg s (x, of_int ly)) \<le> canvas_height s + 5 * effectiveCellSize cfg s \<longleftrightarrow>
         of_int ly \<le> viewMaxLogicalY cfg s"
  using margin_low [OF assms, of "of_int ly" "canvas_height s / 2 + panOffset_y s"]
    margin_high [OF assms, of "of_int ly" "canvas_height s / 2 + panOffset_y s" "canvas_height s"]
  by (simp_all add: logicalToPixel_def scale_factor_def grid_origin_pixels_def
      viewMinLogicalY_def viewMaxLogicalY_def effectiveCellSize_def initialGridOriginY_def)

lemma in_index_range:
  fixes a b :: rat
  assumes "a \<le> of_int i" "of_int i \<le> b"
  shows "i \<in> {\<lfloor>a\<rfloor>..\<lceil>b\<rceil>}"
  using assms by (simp add: floor_le_iff le_ceiling_iff)

lemma view_width:
  assumes "0 < effectiveCellSize cfg s" "0 \<le> canvas_width s"
  shows "viewMinLogicalX cfg s - 5 < viewMaxLogicalX cfg s + 5"
proof -
  have "viewMaxLogicalX cfg s - viewMinLogicalX cfg s = canvas_width s / effectiveCellSize cfg s + 10"
    by (simp add: viewMinLogicalX_def viewMaxLogicalX_def diff_divide_distrib add_divide_distrib)
  moreover have "0 \<le> canvas_width s / effectiveCellSize cfg s"
    using assms by simp
  ultimately show ?thesis by linarith
qed


subsection \<open>Vertical and horizontal lines\<close>

lemma verticalLine_inj: "verticalLine cfg s i = verticalLine cfg s j \<longleftrightarrow> i = j"
  by (auto simp add: verticalLine_def)

lemma horizontalLine_inj: "horizontalLine cfg s i = horizontalLine cfg s j \<longleftrightarrow> i = j"
  by (auto simp add: horizontalLine_def)

lemma is_vertical_verticalLine [simp]: "is_vertical (verticalLine cfg s i)"
  by (simp add: is_vertical_def verticalLine_def)

lemma is_horizontal_horizontalLine [simp]: "is_horizontal (horizontalLine cfg s j)"
  by (simp add: is_horizontal_def horizontalLine_def)

lemma horizontal_not_vertical:
  assumes "0 < effectiveCellSize cfg s" "0 \<le> canvas_width s"
  shows "\<not> is_vertical (horizontalLine cfg s j)"
  using view_width [OF assms] by (simp add: is_vertical_def horizontalLine_def)


lemma vertical_ne_horizontal:
  assumes "0 < effectiveCellSize cfg s" "0 \<le> canvas_width s"
  shows "verticalLine cfg s i \<noteq> horizontalLine cfg s j"
  using horizontal_not_vertical [OF assms, of j] is_vertical_verticalLine [of cfg s i]
  by metis

lemma vertical_in_major:
  assumes "2 \<le> effectiveCellSize cfg s" "0 \<le> canvas_width s"
  shows "verticalLine cfg s i \<in> set (line_list (majorLineVertices (generateGridVertices cfg s))) \<longleftrightarrow>
     i \<in> {\<lfloor>viewMinLogicalX cfg s\<rfloor>..\<lceil>viewMaxLogicalX cfg s\<rceil>} \<and> isMajor cfg i"
proof -
  have pos: "0 < effectiveCellSize cfg s" using assms(1) by simp
  show ?thesis
    using vertical_ne_horizontal [OF pos assms(2)]
    by (auto simp add: major_lines [OF assms(1)] verticalLine_inj)
qed

lemma vertical_in_minor:
  assumes "2 \<le> effectiveCellSize cfg s" "0 \<le> canvas_width s"
  shows "verticalLine cfg s i \<in> set (line_list (minorLineVertices (generateGridVertices cfg s))) \<longleftrightarrow>
     i \<in> {\<lfloor>viewMinLogicalX cfg s\<rfloor>..\<lceil>viewMaxLogicalX cfg s\<rceil>} \<and> \<not> isMajor cfg i"
proof -
  have pos: "0 < effectiveCellSize cfg s" using assms(1) by simp
  show ?thesis
    using vertical_ne_horizontal [OF pos assms(2)]
    by (auto simp add: minor_lines [OF assms(1)] verticalLine_inj)
qed

lemma horizontal_in_major:
  assumes "2 \<le> effectiveCellSize cfg s" "0 \<le> canvas_width s"
  shows "horizontalLine cfg s i \<in> set (line_list (majorLineVertices (generateGridVertices cfg s))) \<longleftrightarrow>
     i \<in> {\<lfloor>viewMinLogicalY cfg s\<rfloor>..\<lceil>viewMaxLogicalY cfg s\<rceil>} \<and> isMajor cfg i"
proof -
  have pos: "0 < effectiveCellSize cfg s" using assms(1) by simp
  have "horizontalLine cfg s i \<noteq> verticalLine cfg s j" for j
    using vertical_ne_horizontal [OF pos assms(2), of j i] by simp
  then show ?thesis
    by (auto simp add: major_lines [OF assms(1)] horizontalLine_inj)
qed

lemma horizontal_in_minor:
  assumes "2 \<le> effectiveCellSize cfg s" "0 \<le> canvas_width s"
  shows "horizontalLine cfg s i \<in> set (line_list (minorLineVertices (generateGridVertices cfg s))) \<longleftrightarrow>
     i \<in> {\<lfloor>viewMinLogicalY cfg s\<rfloor>..\<lceil>viewMaxLogicalY cfg s\<rceil>} \<and> \<not> isMajor cfg i"
proof -
  have pos: "0 < effectiveCellSize cfg s" using assms(1) by simp
  have "horizontalLine cfg s i \<noteq> verticalLine cfg s j" for j
    using vertical_ne_horizontal [OF pos assms(2), of j i] by simp
  then show ?thesis
    by (auto simp add: minor_lines [OF assms(1)] horizontalLine_inj)
qed








subsection \<open>The remainder test\<close>

text \<open>
  The truncating remainder is zero exactly when the flooring one is: both say that the
  divisor divides the index.
\<close>

lemma isMajor_iff_mod:
  assumes "sectionInterval cfg \<noteq> 0"
  shows "isMajor cfg i \<longleftrightarrow> i mod sectionInterval cfg = 0"
proof -
  have "\<bar>i\<bar> mod \<bar>sectionInterval cfg\<bar> = 0 \<longleftrightarrow> i mod sectionInterval cfg = 0"
    by (simp add: mod_eq_0_iff_dvd)
  moreover have "sgn i * (\<bar>i\<bar> mod \<bar>sectionInterval cfg\<bar>) = 0 \<longleftrightarrow> \<bar>i\<bar> mod \<bar>sectionInterval cfg\<bar> = 0"
    by (cases "i = 0") (simp_all add: sgn_if)
  ultimately show ?thesis using assms by (simp add: isMajor_def js_rem_def)
qed

subsection \<open>The handlers\<close>

lemma wheel_camera:
  "canvas_width (wheel cfg s event) = canvas_width s"
  "canvas_height (wheel cfg s event) = canvas_height s"
  "currentZoom (wheel cfg s event) = clampZoom (currentZoom s * zoomFactor event)"
  "panOffset_x (wheel cfg s event) =
     mouseX event - canvas_width s / 2 -
     fst (pixelToLogical cfg s (mouseX event, mouseY event)) *
       (baseCellSize cfg * clampZoom (currentZoom s * zoomFactor event))"
  "panOffset_y (wheel cfg s event) =
     mouseY event - canvas_height s / 2 -
     snd (pixelToLogical cfg s (mouseX event, mouseY event)) *
       (baseCellSize cfg * clampZoom (currentZoom s * zoomFactor event))"
  by (simp_all add: wheel_def updateVertexBuffers_def Let_def pixelToLogical_def)

lemma zoomFactor_cases: "zoomFactor event = 11 / 10 \<or> zoomFactor event = 9 / 10"
  by (simp add: zoomFactor_def)

lemma clampZoom_range: "1 / 20 \<le> clampZoom z \<and> clampZoom z \<le> 20"
  by (simp add: clampZoom_def)

lemma zoom_example:
  "currentZoom (wheels gridConfig ((initialGrid 800 600)\<lparr>currentZoom := 1 / 20\<rparr>)
     [\<lparr>clientX = 400, clientY = 300, rect_left = 0, rect_top = 0, deltaY = 100\<rparr>,
      \<lparr>clientX = 410, clientY = 300, rect_left = 0, rect_top = 0, deltaY = - 100\<rparr>]) = 11 / 200"
  by (simp add: wheel_camera clampZoom_def zoomFactor_def)

lemma selectedCells_click:
  "selectedCells (click s e) =
     (if cellIndex s e \<in> selectedCells s then selectedCells s - {cellIndex s e}
      else insert (cellIndex s e) (selectedCells s))"
  by (simp add: click_def)

text \<open>The wheel handler of the cell grid keeps \<open>scale\<close> in \<open>[0.1, 5]\<close>.\<close>

lemma scale_in_range:
  assumes "1 / 10 \<le> scale s" and "scale s \<le> 5"
  shows "1 / 10 \<le> scale (cell_wheels s es) \<and> scale (cell_wheels s es) \<le> 5"
  using assms
proof (induction es arbitrary: s)
  case Nil
  then show ?case by simp
next
  case (Cons e es)
  have "1 / 10 \<le> scale (cell_wheel s e)" "scale (cell_wheel s e) \<le> 5"
    by (simp_all add: cell_wheel_def Let_def)
  then show ?case using Cons.IH by simp
qed

subsection \<open>Startup, case by case\<close>

lemma main_effects:
  "main env =
     (if \<not> navigator_gpu env then ([Alert ''need a browser that supports WebGPU''], Fulfilled)
      else if \<not> adapter_found env
        then ([RequestAdapter, Alert ''need a browser that supports WebGPU''], Fulfilled)
      else if \<not> device_granted env
        then ([RequestAdapter, RequestDevice], Rejected RequestDeviceRejected)
      else ([RequestAdapter, RequestDevice, Configure, CreateShaderModule, CreateShaderModule,
             CreateShaderModule, CreateRenderPipeline, ObserveResize], Fulfilled))"
  by (simp add: main_def fail_def)

lemma main_js_effects:
  "main_js env =
     (if \<not> navigator_gpu env then [ConsoleLog, ConsoleError WebGPUNotSupported]
      else if \<not> adapter_found env then [ConsoleLog, RequestAdapter, ConsoleError AdapterNotLoaded]
      else if \<not> device_granted env
        then [ConsoleLog, RequestAdapter, RequestDevice, ConsoleError RequestDeviceRejected]
      else [ConsoleLog, RequestAdapter, RequestDevice, ConsoleLog, Configure, CreateShaderModule,
            CreateShaderModule, CreateRenderPipeline, CreateComputePipeline, Render,
            RenderCompute])"
  by (simp add: main_js_def getDevice_def)

section \<open>Round trip of the coordinate mapping\<close>

text \<open>
  C1. Mapping a logical point to pixels and back returns the point, for every camera,
  canvas size and grid configuration whose effective cell size \<open>baseCellSize * zoom\<close> is
  not zero: over exact arithmetic \<open>pixelToLogical\<close> inverts \<open>logicalToPixel\<close>.
\<close>

theorem pixelToLogical_logicalToPixel:
  assumes "baseCellSize cfg * currentZoom s \<noteq> 0"
  shows "pixelToLogical cfg s (logicalToPixel cfg s L) = L"
  using assms
  by (simp add: pixelToLogical_def logicalToPixel_def scale_factor_def grid_origin_pixels_def
      prod_eq_iff)

theorem pixelToLogical_logicalToPixel_witness:
  "baseCellSize gridConfig *
     currentZoom \<lparr>canvas_width = 800, canvas_height = 600, currentZoom = 2,
       panOffset_x = 30, panOffset_y = -40, majorLineVertices = [], minorLineVertices = []\<rparr> \<noteq> 0
   \<and> pixelToLogical gridConfig
       \<lparr>canvas_width = 800, canvas_height = 600, currentZoom = 2,
         panOffset_x = 30, panOffset_y = -40, majorLineVertices = [], minorLineVertices = []\<rparr>
       (logicalToPixel gridConfig
         \<lparr>canvas_width = 800, canvas_height = 600, currentZoom = 2,
           panOffset_x = 30, panOffset_y = -40, majorLineVertices = [], minorLineVertices = []\<rparr>
         (3, -7 / 2)) = (3, -7 / 2)"
  using pixelToLogical_logicalToPixel
    [of gridConfig
      "\<lparr>canvas_width = 800, canvas_height = 600, currentZoom = 2,
         panOffset_x = 30, panOffset_y = -40, majorLineVertices = [], minorLineVertices = []\<rparr>"
      "(3, -7 / 2)"]
  by (simp add: gridConfig_def)

section \<open>Coverage of the viewport\<close>

text \<open>
  C2. With an effective cell size of at least 2 pixels, the generated lines cover the
  viewport and a margin of 5 cells on every edge. Every vertical line whose index maps to
  a pixel \<open>x\<close> between \<open>- 5\<close> cells and \<open>width + 5\<close> cells is emitted (so every one that maps
  into \<open>[0, width]\<close> is), every horizontal line likewise for \<open>y\<close> and the height, and each
  emitted line is vertical or horizontal and runs from at most the logical coordinate of
  pixel 0 minus 5 to at least that of the far edge plus 5 on the other axis. No bound on the
  canvas size is needed.
\<close>

theorem coverage:
  assumes "2 \<le> effectiveCellSize cfg s"
  shows
    "(\<forall>lx y. - 5 * effectiveCellSize cfg s \<le> fst (logicalToPixel cfg s (of_int lx, y)) \<and>
         fst (logicalToPixel cfg s (of_int lx, y)) \<le> canvas_width s + 5 * effectiveCellSize cfg s \<longrightarrow>
         verticalLine cfg s lx \<in> set (emitted (generateGridVertices cfg s))) \<and>
     (\<forall>ly x. - 5 * effectiveCellSize cfg s \<le> snd (logicalToPixel cfg s (x, of_int ly)) \<and>
         snd (logicalToPixel cfg s (x, of_int ly)) \<le> canvas_height s + 5 * effectiveCellSize cfg s \<longrightarrow>
         horizontalLine cfg s ly \<in> set (emitted (generateGridVertices cfg s))) \<and>
     (\<forall>l \<in> set (emitted (generateGridVertices cfg s)).
         (is_vertical l \<and>
          snd (fst l) \<le> snd (pixelToLogical cfg s (0, 0)) - 5 \<and>
          snd (pixelToLogical cfg s (canvas_width s, canvas_height s)) + 5 \<le> snd (snd l)) \<or>
         (is_horizontal l \<and>
          fst (fst l) \<le> fst (pixelToLogical cfg s (0, 0)) - 5 \<and>
          fst (pixelToLogical cfg s (canvas_width s, canvas_height s)) + 5 \<le> fst (snd l)))"
proof (intro conjI allI impI ballI)
  have pos: "0 < effectiveCellSize cfg s" using assms by simp
  note em = set_emitted [OF assms]
  {
    fix lx y
    assume "- 5 * effectiveCellSize cfg s \<le> fst (logicalToPixel cfg s (of_int lx, y)) \<and>
      fst (logicalToPixel cfg s (of_int lx, y)) \<le> canvas_width s + 5 * effectiveCellSize cfg s"
    then have "viewMinLogicalX cfg s \<le> of_int lx" "of_int lx \<le> viewMaxLogicalX cfg s"
      using pixel_x_in_view [OF pos] by blast+
    then have "lx \<in> {\<lfloor>viewMinLogicalX cfg s\<rfloor>..\<lceil>viewMaxLogicalX cfg s\<rceil>}"
      by (rule in_index_range)
    then show "verticalLine cfg s lx \<in> set (emitted (generateGridVertices cfg s))"
      unfolding em by blast
  }
  {
    fix ly x
    assume "- 5 * effectiveCellSize cfg s \<le> snd (logicalToPixel cfg s (x, of_int ly)) \<and>
      snd (logicalToPixel cfg s (x, of_int ly)) \<le> canvas_height s + 5 * effectiveCellSize cfg s"
    then have "viewMinLogicalY cfg s \<le> of_int ly" "of_int ly \<le> viewMaxLogicalY cfg s"
      using pixel_y_in_view [OF pos] by blast+
    then have "ly \<in> {\<lfloor>viewMinLogicalY cfg s\<rfloor>..\<lceil>viewMaxLogicalY cfg s\<rceil>}"
      by (rule in_index_range)
    then show "horizontalLine cfg s ly \<in> set (emitted (generateGridVertices cfg s))"
      unfolding em by blast
  }
  {
    fix l
    assume "l \<in> set (emitted (generateGridVertices cfg s))"
    then consider i where "l = verticalLine cfg s i" | j where "l = horizontalLine cfg s j"
      unfolding em by blast
    then show "(is_vertical l \<and>
          snd (fst l) \<le> snd (pixelToLogical cfg s (0, 0)) - 5 \<and>
          snd (pixelToLogical cfg s (canvas_width s, canvas_height s)) + 5 \<le> snd (snd l)) \<or>
         (is_horizontal l \<and>
          fst (fst l) \<le> fst (pixelToLogical cfg s (0, 0)) - 5 \<and>
          fst (pixelToLogical cfg s (canvas_width s, canvas_height s)) + 5 \<le> fst (snd l))"
    proof cases
      case 1
      then show ?thesis
        by (simp add: verticalLine_def is_vertical_def view_pixelToLogical)
    next
      case 2
      then show ?thesis
        by (simp add: horizontalLine_def is_horizontal_def view_pixelToLogical)
    qed
  }
qed

theorem coverage_witness:
  "2 \<le> effectiveCellSize gridConfig (initialGrid 100 100) \<and>
   fst (logicalToPixel gridConfig (initialGrid 100 100) (of_int 1, 0)) = 100 \<and>
   snd (logicalToPixel gridConfig (initialGrid 100 100) (0, of_int (- 1))) = 0 \<and>
   ((1, - 11), (1, 11)) \<in> set (emitted (generateGridVertices gridConfig (initialGrid 100 100))) \<and>
   ((- 11, - 1), (11, - 1)) \<in> set (emitted (generateGridVertices gridConfig (initialGrid 100 100))) \<and>
   is_vertical ((1, - 11), (1, 11)) \<and>
   - 11 \<le> snd (pixelToLogical gridConfig (initialGrid 100 100) (0, 0)) - 5 \<and>
   snd (pixelToLogical gridConfig (initialGrid 100 100) (100, 100)) + 5 \<le> 11"
proof -
  let ?s = "initialGrid 100 100"
  have e: "2 \<le> effectiveCellSize gridConfig ?s" by (simp add: example_view)
  have px: "fst (logicalToPixel gridConfig ?s (of_int 1, 0)) = 100"
    and py: "snd (logicalToPixel gridConfig ?s (0, of_int (- 1))) = 0"
    by (simp_all add: logicalToPixel_def scale_factor_def grid_origin_pixels_def gridConfig_def)
  have v: "verticalLine gridConfig ?s 1 = ((1, - 11), (1, 11))"
    and h: "horizontalLine gridConfig ?s (- 1) = ((- 11, - 1), (11, - 1))"
    by (simp_all add: verticalLine_def horizontalLine_def example_view)
  have nh: "\<not> is_horizontal ((1, - 11), (1, 11))" by (simp add: is_horizontal_def)
  have vert: "((1, - 11), (1, 11)) \<in> set (emitted (generateGridVertices gridConfig ?s))"
    using conjunct1 [OF coverage [OF e], rule_format, of 1 0] px
    by (simp add: example_view v)
  have hor: "((- 11, - 1), (11, - 1)) \<in> set (emitted (generateGridVertices gridConfig ?s))"
    using conjunct1 [OF conjunct2 [OF coverage [OF e]], rule_format, of 0 "- 1"] py
    by (simp add: example_view h)
  have span: "is_vertical ((1, - 11), (1, 11)) \<and>
      - 11 \<le> snd (pixelToLogical gridConfig ?s (0, 0)) - 5 \<and>
      snd (pixelToLogical gridConfig ?s (100, 100)) + 5 \<le> 11"
    using bspec [OF conjunct2 [OF conjunct2 [OF coverage [OF e]]] vert] nh by simp
  from e px py vert hor span show ?thesis by simp
qed

section \<open>The degenerate guard\<close>

text \<open>
  C3. When \<open>baseCellSize * zoom\<close> is below 2 pixels, \<open>generateGridVertices\<close> returns with
  both arrays empty, whatever the canvas and pan offset: no line is emitted, \<open>frame\<close> issues
  no draw call, and the function returns a state as in every other case.
\<close>

theorem degenerate_guard:
  assumes "baseCellSize cfg * currentZoom s < 2"
  shows "majorLineVertices (generateGridVertices cfg s) = [] \<and>
         minorLineVertices (generateGridVertices cfg s) = [] \<and>
         emitted (generateGridVertices cfg s) = [] \<and>
         frame_draws (generateGridVertices cfg s) = []"
proof -
  from assms have "effectiveCellSize cfg s < 2" by (simp add: effectiveCellSize_def)
  then have "generateGridVertices cfg s = s\<lparr>majorLineVertices := [], minorLineVertices := []\<rparr>"
    by (rule generateGridVertices_small)
  then show ?thesis by (simp add: emitted_def frame_draws_def)
qed

theorem degenerate_guard_witness:
  "baseCellSize gridConfig * currentZoom ((initialGrid 800 600)\<lparr>currentZoom := 1 / 50,
       majorLineVertices := [0, - 11, 0, 11]\<rparr>) < 2 \<and>
   majorLineVertices (generateGridVertices gridConfig ((initialGrid 800 600)\<lparr>currentZoom := 1 / 50,
       majorLineVertices := [0, - 11, 0, 11]\<rparr>)) = [] \<and>
   minorLineVertices (generateGridVertices gridConfig ((initialGrid 800 600)\<lparr>currentZoom := 1 / 50,
       majorLineVertices := [0, - 11, 0, 11]\<rparr>)) = [] \<and>
   frame_draws (generateGridVertices gridConfig ((initialGrid 800 600)\<lparr>currentZoom := 1 / 50,
       majorLineVertices := [0, - 11, 0, 11]\<rparr>)) = []"
proof -
  have "baseCellSize gridConfig * currentZoom ((initialGrid 800 600)\<lparr>currentZoom := 1 / 50,
       majorLineVertices := [0, - 11, 0, 11]\<rparr>) < 2"
    by (simp add: gridConfig_def)
  from this degenerate_guard [OF this] show ?thesis by simp
qed

section \<open>Major and minor lines\<close>

text \<open>
  C4. For a section interval other than zero, the test of the loops holds for an index
  exactly when the index is \<open>0\<close> modulo the interval, the modulo being the mathematical one,
  for negative indices too. So the line of every index of the visible range is in the major
  array exactly when the index is a multiple of the interval, and in the minor array
  exactly when it is not. For an interval of 5 the indices -10, -5, 0, 5, 10 are major
  and -3, -1, 1, 3, 7 are minor.
\<close>

theorem classification:
  assumes "sectionInterval cfg \<noteq> 0"
  shows
    "(isMajor cfg i \<longleftrightarrow> i mod sectionInterval cfg = 0) \<and>
     (2 \<le> effectiveCellSize cfg s \<and> 0 \<le> canvas_width s \<longrightarrow>
        (i \<in> {\<lfloor>viewMinLogicalX cfg s\<rfloor>..\<lceil>viewMaxLogicalX cfg s\<rceil>} \<longrightarrow>
           (verticalLine cfg s i \<in> set (line_list (majorLineVertices (generateGridVertices cfg s)))
              \<longleftrightarrow> i mod sectionInterval cfg = 0) \<and>
           (verticalLine cfg s i \<in> set (line_list (minorLineVertices (generateGridVertices cfg s)))
              \<longleftrightarrow> i mod sectionInterval cfg \<noteq> 0)) \<and>
        (i \<in> {\<lfloor>viewMinLogicalY cfg s\<rfloor>..\<lceil>viewMaxLogicalY cfg s\<rceil>} \<longrightarrow>
           (horizontalLine cfg s i \<in> set (line_list (majorLineVertices (generateGridVertices cfg s)))
              \<longleftrightarrow> i mod sectionInterval cfg = 0) \<and>
           (horizontalLine cfg s i \<in> set (line_list (minorLineVertices (generateGridVertices cfg s)))
              \<longleftrightarrow> i mod sectionInterval cfg \<noteq> 0))) \<and>
     (sectionInterval cfg = 5 \<longrightarrow>
        isMajor cfg (- 10) \<and> isMajor cfg (- 5) \<and> isMajor cfg 0 \<and> isMajor cfg 5 \<and> isMajor cfg 10 \<and>
        \<not> isMajor cfg (- 3) \<and> \<not> isMajor cfg (- 1) \<and> \<not> isMajor cfg 1 \<and> \<not> isMajor cfg 3 \<and>
        \<not> isMajor cfg 7)"
proof (intro conjI impI)
  note m = isMajor_iff_mod [OF assms]
  show "isMajor cfg i \<longleftrightarrow> i mod sectionInterval cfg = 0" by (rule m)
  {
    assume a: "2 \<le> effectiveCellSize cfg s \<and> 0 \<le> canvas_width s"
    then have e: "2 \<le> effectiveCellSize cfg s" and w: "0 \<le> canvas_width s" by simp_all
    {
      assume "i \<in> {\<lfloor>viewMinLogicalX cfg s\<rfloor>..\<lceil>viewMaxLogicalX cfg s\<rceil>}"
      then show
        "verticalLine cfg s i \<in> set (line_list (majorLineVertices (generateGridVertices cfg s)))
           \<longleftrightarrow> i mod sectionInterval cfg = 0"
        "verticalLine cfg s i \<in> set (line_list (minorLineVertices (generateGridVertices cfg s)))
           \<longleftrightarrow> i mod sectionInterval cfg \<noteq> 0"
        by (simp_all add: vertical_in_major [OF e w] vertical_in_minor [OF e w] m)
    }
    {
      assume "i \<in> {\<lfloor>viewMinLogicalY cfg s\<rfloor>..\<lceil>viewMaxLogicalY cfg s\<rceil>}"
      then show
        "horizontalLine cfg s i \<in> set (line_list (majorLineVertices (generateGridVertices cfg s)))
           \<longleftrightarrow> i mod sectionInterval cfg = 0"
        "horizontalLine cfg s i \<in> set (line_list (minorLineVertices (generateGridVertices cfg s)))
           \<longleftrightarrow> i mod sectionInterval cfg \<noteq> 0"
        by (simp_all add: horizontal_in_major [OF e w] horizontal_in_minor [OF e w] m)
    }
  }
  {
    assume "sectionInterval cfg = 5"
    then show "isMajor cfg (- 10)" "isMajor cfg (- 5)" "isMajor cfg 0" "isMajor cfg 5"
      "isMajor cfg 10" "\<not> isMajor cfg (- 3)" "\<not> isMajor cfg (- 1)" "\<not> isMajor cfg 1"
      "\<not> isMajor cfg 3" "\<not> isMajor cfg 7"
      by (simp_all add: isMajor_def js_rem_def)
  }
qed

theorem classification_witness:
  "sectionInterval gridConfig \<noteq> 0 \<and>
   isMajor gridConfig (- 5) \<and> (- 5) mod sectionInterval gridConfig = 0 \<and>
   \<not> isMajor gridConfig (- 3) \<and> (- 3) mod sectionInterval gridConfig = 2 \<and>
   2 \<le> effectiveCellSize gridConfig (initialGrid 100 100) \<and>
   0 \<le> canvas_width (initialGrid 100 100) \<and>
   - 5 \<in> {\<lfloor>viewMinLogicalX gridConfig (initialGrid 100 100)\<rfloor>..\<lceil>viewMaxLogicalX gridConfig (initialGrid 100 100)\<rceil>} \<and>
   - 5 \<in> {\<lfloor>viewMinLogicalY gridConfig (initialGrid 100 100)\<rfloor>..\<lceil>viewMaxLogicalY gridConfig (initialGrid 100 100)\<rceil>} \<and>
   ((- 5, - 11), (- 5, 11)) \<in>
     set (line_list (majorLineVertices (generateGridVertices gridConfig (initialGrid 100 100)))) \<and>
   ((- 5, - 11), (- 5, 11)) \<notin>
     set (line_list (minorLineVertices (generateGridVertices gridConfig (initialGrid 100 100)))) \<and>
   ((- 11, - 5), (11, - 5)) \<in>
     set (line_list (majorLineVertices (generateGridVertices gridConfig (initialGrid 100 100)))) \<and>
   ((- 11, - 5), (11, - 5)) \<notin>
     set (line_list (minorLineVertices (generateGridVertices gridConfig (initialGrid 100 100)))) \<and>
   sectionInterval gridConfig = 5 \<and> isMajor gridConfig (- 10) \<and> \<not> isMajor gridConfig 7"
proof -
  let ?s = "initialGrid 100 100"
  have si: "sectionInterval gridConfig \<noteq> 0" and si5: "sectionInterval gridConfig = 5"
    by (simp_all add: gridConfig_def)
  have e: "2 \<le> effectiveCellSize gridConfig ?s \<and> 0 \<le> canvas_width ?s"
    by (simp add: example_view)
  have r: "- 5 \<in> {\<lfloor>viewMinLogicalX gridConfig ?s\<rfloor>..\<lceil>viewMaxLogicalX gridConfig ?s\<rceil>}"
    "- 5 \<in> {\<lfloor>viewMinLogicalY gridConfig ?s\<rfloor>..\<lceil>viewMaxLogicalY gridConfig ?s\<rceil>}"
    by (simp_all add: example_view)
  have v: "verticalLine gridConfig ?s (- 5) = ((- 5, - 11), (- 5, 11))"
    and h: "horizontalLine gridConfig ?s (- 5) = ((- 11, - 5), (11, - 5))"
    by (simp_all add: verticalLine_def horizontalLine_def example_view)
  note c = classification [OF si, of "- 5" ?s]
  note c3 = classification [OF si, of "- 3" ?s]
  have m: "(- 5) mod sectionInterval gridConfig = 0" "(- 3) mod sectionInterval gridConfig = 2"
    by (simp_all add: si5)
  from c c3 e r m si si5 show ?thesis
    unfolding v h by simp
qed

section \<open>The zoom stays in its range\<close>

text \<open>
  C5. If the zoom is in \<open>[0.05, 20]\<close>, it is still in \<open>[0.05, 20]\<close> after any finite sequence
  of wheel events of the line grid, each of which multiplies it by 1.1 or 0.9 and clamps
  the product (\<open>wheel_camera\<close>, \<open>zoomFactor_cases\<close>, \<open>clampZoom_range\<close>). The statement holds for every prefix of
  the sequence, since a prefix is a sequence. The cell grid keeps its \<open>scale\<close> in
  \<open>[0.1, 5]\<close> in the same way (\<open>scale_in_range\<close>).
\<close>

theorem zoom_in_range:
  assumes "1 / 20 \<le> currentZoom s" and "currentZoom s \<le> 20"
  shows "1 / 20 \<le> currentZoom (wheels cfg s events) \<and> currentZoom (wheels cfg s events) \<le> 20"
  using assms
proof (induction events arbitrary: s)
  case Nil
  then show ?case by simp
next
  case (Cons event events)
  have "1 / 20 \<le> currentZoom (wheel cfg s event)" "currentZoom (wheel cfg s event) \<le> 20"
    using clampZoom_range by (simp_all add: wheel_camera)
  then show ?case using Cons.IH by simp
qed

theorem zoom_in_range_witness:
  "1 / 20 \<le> currentZoom ((initialGrid 800 600)\<lparr>currentZoom := 1 / 20\<rparr>) \<and>
   currentZoom ((initialGrid 800 600)\<lparr>currentZoom := 1 / 20\<rparr>) \<le> 20 \<and>
   1 / 20 \<le> currentZoom (wheels gridConfig ((initialGrid 800 600)\<lparr>currentZoom := 1 / 20\<rparr>)
     [\<lparr>clientX = 400, clientY = 300, rect_left = 0, rect_top = 0, deltaY = 100\<rparr>,
      \<lparr>clientX = 410, clientY = 300, rect_left = 0, rect_top = 0, deltaY = - 100\<rparr>]) \<and>
   currentZoom (wheels gridConfig ((initialGrid 800 600)\<lparr>currentZoom := 1 / 20\<rparr>)
     [\<lparr>clientX = 400, clientY = 300, rect_left = 0, rect_top = 0, deltaY = 100\<rparr>,
      \<lparr>clientX = 410, clientY = 300, rect_left = 0, rect_top = 0, deltaY = - 100\<rparr>]) \<le> 20"
proof -
  let ?s = "(initialGrid 800 600)\<lparr>currentZoom := 1 / 20\<rparr>"
  have lo: "1 / 20 \<le> currentZoom ?s" and hi: "currentZoom ?s \<le> 20" by simp_all
  from zoom_in_range [OF lo hi] lo hi show ?thesis by blast
qed

section \<open>The range of emitted indices\<close>



section \<open>The cell picker\<close>

text \<open>
  C7. For a cell size other than zero, the click handler computes the index
  \<open>floor ((mouseY - cameraPos.y) / cellSize) * gridSize + floor ((mouseX - cameraPos.x) / cellSize)\<close>
  and toggles it in \<open>selectedCells\<close>. With \<open>gridSize = 10\<close>, a cell size of 20 pixels and
  the camera at the origin, a click at pixel (25, 45) is in row 2 and column 1, index 21.
\<close>

theorem cell_picker:
  assumes "cellSize s \<noteq> 0"
  shows
  "cellIndex s e =
     \<lfloor>(mouseY e - cameraPos_y s) / cellSize s\<rfloor> * gridSize +
     \<lfloor>(mouseX e - cameraPos_x s) / cellSize s\<rfloor> \<and>
   selectedCells (click s e) =
     (if cellIndex s e \<in> selectedCells s then selectedCells s - {cellIndex s e}
      else insert (cellIndex s e) (selectedCells s)) \<and>
   (gridSize = 10 \<and> cellSize s = 20 \<and> cameraPos_x s = 0 \<and> cameraPos_y s = 0 \<and>
    mouseX e = 25 \<and> mouseY e = 45 \<longrightarrow>
      gridY s e = 2 \<and> gridX s e = 1 \<and> cellIndex s e = 2 * 10 + 1 \<and> cellIndex s e = 21)"
proof (intro conjI impI)
  show "cellIndex s e =
     \<lfloor>(mouseY e - cameraPos_y s) / cellSize s\<rfloor> * gridSize +
     \<lfloor>(mouseX e - cameraPos_x s) / cellSize s\<rfloor>"
    by (simp add: cellIndex_def gridX_def gridY_def)
  show "selectedCells (click s e) =
     (if cellIndex s e \<in> selectedCells s then selectedCells s - {cellIndex s e}
      else insert (cellIndex s e) (selectedCells s))"
    by (rule selectedCells_click)
  assume a: "gridSize = 10 \<and> cellSize s = 20 \<and> cameraPos_x s = 0 \<and> cameraPos_y s = 0 \<and>
    mouseX e = 25 \<and> mouseY e = 45"
  have row: "\<lfloor>45 / 20 :: rat\<rfloor> = 2" and col: "\<lfloor>25 / 20 :: rat\<rfloor> = 1"
    by (simp_all add: floor_eq_iff)
  from a row col show "gridY s e = 2" "gridX s e = 1" by (simp_all add: gridX_def gridY_def)
  then show "cellIndex s e = 2 * 10 + 1" "cellIndex s e = 21"
    using a by (simp_all add: cellIndex_def)
qed

theorem cell_picker_witness:
  "cellSize (initialCells 200 200) \<noteq> 0 \<and> gridSize = 10 \<and> cellSize (initialCells 200 200) = 20 \<and>
   cameraPos_x (initialCells 200 200) = 0 \<and> cameraPos_y (initialCells 200 200) = 0 \<and>
   mouseX \<lparr>clientX = 33, clientY = 50, rect_left = 8, rect_top = 5\<rparr> = 25 \<and>
   mouseY \<lparr>clientX = 33, clientY = 50, rect_left = 8, rect_top = 5\<rparr> = 45 \<and>
   cellIndex (initialCells 200 200) \<lparr>clientX = 33, clientY = 50, rect_left = 8, rect_top = 5\<rparr> = 21 \<and>
   selectedCells (click (initialCells 200 200)
     \<lparr>clientX = 33, clientY = 50, rect_left = 8, rect_top = 5\<rparr>) = {21}"
proof -
  let ?s = "initialCells 200 200"
  let ?e = "\<lparr>clientX = 33, clientY = 50, rect_left = 8, rect_top = 5\<rparr>"
  have a: "gridSize = 10 \<and> cellSize ?s = 20 \<and> cameraPos_x ?s = 0 \<and> cameraPos_y ?s = 0 \<and>
    mouseX ?e = 25 \<and> mouseY ?e = 45"
    by (simp add: gridSize_def cellSize_def mouseX_def mouseY_def)
  then have nz: "cellSize ?s \<noteq> 0" by simp
  from cell_picker [OF nz, of ?e] a nz show ?thesis by simp
qed

section \<open>Startup without a device\<close>

text \<open>
  As the claim C8 is written, every startup that finds no graphics capability reports it
  by one alert. The startup of \<open>main.js\<close> does not: without \<open>navigator.gpu\<close> it logs the
  error with \<open>console.error\<close> and shows no alert.
\<close>

theorem main_js_no_alert:
  "main_js \<lparr>navigator_gpu = False, adapter_found = False, device_granted = False\<rparr> =
     [ConsoleLog, ConsoleError WebGPUNotSupported] \<and>
   filter is_alert
     (main_js \<lparr>navigator_gpu = False, adapter_found = False, device_granted = False\<rparr>) = [] \<and>
   length (filter is_alert
     (main_js \<lparr>navigator_gpu = False, adapter_found = False, device_granted = False\<rparr>)) \<noteq> 1"
  by (simp add: main_js_effects)

text \<open>
  C8, amended. When \<open>navigator.gpu\<close> is missing or \<open>requestAdapter\<close> yields no adapter,
  \<open>main\<close> of \<open>minor.js\<close> shows exactly one alert, \<open>need a browser that supports WebGPU\<close>,
  and returns: no step of the setup or of the rendering is made, the adapter is requested at
  most once and the device never. In these cases, and when \<open>requestDevice\<close> is rejected,
  the startup of \<open>main.js\<close> reports the error exactly once with \<open>console.error\<close>, shows no
  alert, makes no step of the setup or of the rendering, and makes each request at most
  once.
\<close>

theorem startup_unsupported:
  "(\<not> navigator_gpu env \<or> \<not> adapter_found env \<longrightarrow>
      filter is_alert (fst (main env)) = [Alert ''need a browser that supports WebGPU''] \<and>
      filter is_setup (fst (main env)) = [] \<and>
      count_list (fst (main env)) RequestAdapter \<le> 1 \<and>
      count_list (fst (main env)) RequestDevice = 0 \<and>
      snd (main env) = Fulfilled) \<and>
   (\<not> navigator_gpu env \<or> \<not> adapter_found env \<or> \<not> device_granted env \<longrightarrow>
      filter is_alert (main_js env) = [] \<and>
      length (filter is_console_error (main_js env)) = 1 \<and>
      filter is_setup (main_js env) = [] \<and>
      count_list (main_js env) RequestAdapter \<le> 1 \<and>
      count_list (main_js env) RequestDevice \<le> 1)"
  by (simp add: main_effects main_js_effects)

theorem startup_unsupported_witness:
  "\<not> navigator_gpu \<lparr>navigator_gpu = False, adapter_found = False, device_granted = False\<rparr> \<and>
   fst (main \<lparr>navigator_gpu = False, adapter_found = False, device_granted = False\<rparr>) =
     [Alert ''need a browser that supports WebGPU''] \<and>
   filter is_alert
     (fst (main \<lparr>navigator_gpu = False, adapter_found = False, device_granted = False\<rparr>)) =
     [Alert ''need a browser that supports WebGPU''] \<and>
   snd (main \<lparr>navigator_gpu = False, adapter_found = False, device_granted = False\<rparr>) = Fulfilled \<and>
   filter is_alert
     (main_js \<lparr>navigator_gpu = False, adapter_found = False, device_granted = False\<rparr>) = [] \<and>
   length (filter is_console_error
     (main_js \<lparr>navigator_gpu = False, adapter_found = False, device_granted = False\<rparr>)) = 1 \<and>
   filter is_setup
     (main_js \<lparr>navigator_gpu = False, adapter_found = False, device_granted = False\<rparr>) = []"
proof -
  let ?env = "\<lparr>navigator_gpu = False, adapter_found = False, device_granted = False\<rparr>"
  have h: "\<not> navigator_gpu ?env" by simp
  have m: "fst (main ?env) = [Alert ''need a browser that supports WebGPU'']"
    by (simp add: main_def fail_def)
  from startup_unsupported [of ?env] h m show ?thesis by simp
qed

section \<open>No bounds check in the cell picker\<close>

text \<open>
  C9. The click handler stores indices outside \<open>[0, gridSize * gridSize - 1]\<close>. There is a
  state and a click left of the camera position, so with a negative column, whose index is
  below 0 and is added to \<open>selectedCells\<close>; and from the starting state there is a click
  inside the canvas whose index is above the last cell and is added as well.
\<close>

theorem no_bounds_validation:
  "(\<exists>s (e :: mouse_event).
      cellSize s \<noteq> 0 \<and> mouseX e < cameraPos_x s \<and> gridX s e < 0 \<and>
      cellIndex s e \<notin> {0..gridSize * gridSize - 1} \<and>
      cellIndex s e \<notin> selectedCells s \<and> cellIndex s e \<in> selectedCells (click s e)) \<and>
   (\<exists>w h (e :: mouse_event).
      cellSize (initialCells w h) \<noteq> 0 \<and>
      0 \<le> mouseX e \<and> mouseX e < w \<and> 0 \<le> mouseY e \<and> mouseY e < h \<and>
      cellIndex (initialCells w h) e \<notin> {0..gridSize * gridSize - 1} \<and>
      cellIndex (initialCells w h) e \<in> selectedCells (click (initialCells w h) e))"
proof
  let ?s = "(initialCells 200 200)\<lparr>cameraPos_x := 30\<rparr>"
  let ?e = "\<lparr>clientX = 10, clientY = 5, rect_left = 0, rect_top = 0\<rparr>"
  have x: "gridX ?s ?e = - 1" and y: "gridY ?s ?e = 0"
    by (simp_all add: gridX_def gridY_def cellSize_def gridSize_def mouseX_def mouseY_def
        floor_eq_iff)
  then have i: "cellIndex ?s ?e = - 1" by (simp add: cellIndex_def)
  have "cellSize ?s \<noteq> 0 \<and> mouseX ?e < cameraPos_x ?s \<and> gridX ?s ?e < 0 \<and>
      cellIndex ?s ?e \<notin> {0..gridSize * gridSize - 1} \<and>
      cellIndex ?s ?e \<notin> selectedCells ?s \<and> cellIndex ?s ?e \<in> selectedCells (click ?s ?e)"
    by (simp add: x i selectedCells_click mouseX_def gridSize_def cellSize_def)
  then show "\<exists>s (e :: mouse_event).
      cellSize s \<noteq> 0 \<and> mouseX e < cameraPos_x s \<and> gridX s e < 0 \<and>
      cellIndex s e \<notin> {0..gridSize * gridSize - 1} \<and>
      cellIndex s e \<notin> selectedCells s \<and> cellIndex s e \<in> selectedCells (click s e)"
    by blast
next
  let ?s = "initialCells 300 150"
  let ?e = "\<lparr>clientX = 290, clientY = 140, rect_left = 0, rect_top = 0\<rparr>"
  have x: "gridX ?s ?e = 19" and y: "gridY ?s ?e = 9"
    by (simp_all add: gridX_def gridY_def cellSize_def gridSize_def mouseX_def mouseY_def
        floor_eq_iff)
  then have i: "cellIndex ?s ?e = 109"
    by (simp add: cellIndex_def gridSize_def)
  have "cellSize ?s \<noteq> 0 \<and>
      0 \<le> mouseX ?e \<and> mouseX ?e < 300 \<and> 0 \<le> mouseY ?e \<and> mouseY ?e < 150 \<and>
      cellIndex ?s ?e \<notin> {0..gridSize * gridSize - 1} \<and>
      cellIndex ?s ?e \<in> selectedCells (click ?s ?e)"
    by (simp add: i selectedCells_click mouseX_def mouseY_def gridSize_def cellSize_def)
  then show "\<exists>w h (e :: mouse_event).
      cellSize (initialCells w h) \<noteq> 0 \<and>
      0 \<le> mouseX e \<and> mouseX e < w \<and> 0 \<le> mouseY e \<and> mouseY e < h \<and>
      cellIndex (initialCells w h) e \<notin> {0..gridSize * gridSize - 1} \<and>
      cellIndex (initialCells w h) e \<in> selectedCells (click (initialCells w h) e)"
    by blast
qed

section \<open>The zoom is anchored at the cursor\<close>

text \<open>
  C10. After a wheel event at the mouse position \<open>M\<close>, the logical point that was under
  the cursor before the event is mapped to \<open>M\<close> by the new zoom and pan offset: the point
  under the cursor stays where it is, provided \<open>baseCellSize * oldZoom\<close> is not zero.
\<close>

theorem zoom_anchored:
  assumes "baseCellSize cfg * currentZoom s \<noteq> 0"
  shows "logicalToPixel cfg (wheel cfg s event)
           (pixelToLogical cfg s (mouseX event, mouseY event)) =
         (mouseX event, mouseY event)"
  by (simp add: logicalToPixel_def scale_factor_def grid_origin_pixels_def wheel_camera)

theorem zoom_anchored_witness:
  "baseCellSize gridConfig * currentZoom (initialGrid 800 600) \<noteq> 0 \<and>
   mouseX \<lparr>clientX = 510, clientY = 220, rect_left = 10, rect_top = 20, deltaY = - 100\<rparr> = 500 \<and>
   mouseY \<lparr>clientX = 510, clientY = 220, rect_left = 10, rect_top = 20, deltaY = - 100\<rparr> = 200 \<and>
   pixelToLogical gridConfig (initialGrid 800 600) (500, 200) = (2, - 2) \<and>
   currentZoom (wheel gridConfig (initialGrid 800 600)
     \<lparr>clientX = 510, clientY = 220, rect_left = 10, rect_top = 20, deltaY = - 100\<rparr>) = 11 / 10 \<and>
   logicalToPixel gridConfig
     (wheel gridConfig (initialGrid 800 600)
        \<lparr>clientX = 510, clientY = 220, rect_left = 10, rect_top = 20, deltaY = - 100\<rparr>)
     (2, - 2) = (500, 200)"
proof -
  let ?e = "\<lparr>clientX = 510, clientY = 220, rect_left = 10, rect_top = 20, deltaY = - 100\<rparr>"
  have nz: "baseCellSize gridConfig * currentZoom (initialGrid 800 600) \<noteq> 0"
    by (simp add: gridConfig_def)
  have p: "pixelToLogical gridConfig (initialGrid 800 600) (500, 200) = (2, - 2)"
    by (simp add: pixelToLogical_def gridConfig_def)
  have z: "currentZoom (wheel gridConfig (initialGrid 800 600) ?e) = 11 / 10"
    by (simp add: wheel_camera clampZoom_def zoomFactor_def)
  have m: "mouseX ?e = 500" "mouseY ?e = 200" by (simp_all add: mouseX_def mouseY_def)
  from zoom_anchored [OF nz, of ?e] nz p z m show ?thesis by simp
qed

end
